theory Spec2Isabelle
  imports Main "HOL-Library.Word"
begin

section \<open>Python values\<close>

text \<open>
  A Python \<open>str\<close> is a sequence of Unicode code points, and \<open>len\<close> counts code points.
  A code point is a \<open>nat\<close>; \<open>str_lit\<close> turns an Isabelle literal (one \<open>char\<close> per code
  point below 256) into such a string. Code points of the source's literals above 255
  are written as numbers.
\<close>

type_synonym pystr = "nat list"

definition str_lit :: "string \<Rightarrow> pystr" where
  "str_lit cs = map of_char cs"

text \<open>
  The process environment read by \<open>os.getenv\<close>: \<open>os.getenv(k)\<close> is \<open>None\<close> for an unset
  variable, \<open>os.getenv(k, d)\<close> is \<open>d\<close> then.
\<close>

type_synonym environ = "pystr \<rightharpoonup> pystr"

definition getenv :: "environ \<Rightarrow> pystr \<Rightarrow> pystr option" where
  "getenv env k = env k"

definition getenv_default :: "environ \<Rightarrow> pystr \<Rightarrow> pystr \<Rightarrow> pystr" where
  "getenv_default env k d = (case env k of None \<Rightarrow> d | Some v \<Rightarrow> v)"

text \<open>
  The classes of \<open>Exception\<close> that the code can meet; a subclass counts as its base
  (\<open>ModuleNotFoundError\<close> as \<open>ImportError\<close>, \<open>JSONDecodeError\<close> as \<open>ValueError\<close>, the
  exceptions of the HTTP client as \<open>RequestException\<close>). Conditions that are not an
  \<open>Exception\<close> (\<open>KeyboardInterrupt\<close>, \<open>SystemExit\<close>) are signals to the process and are
  not modelled.
\<close>

datatype exn_class =
  ImportError | AttributeError | KeyError | IndexError | TypeError | ValueError
  | RequestException | OtherException

text \<open>Python indexing \<open>xs[i]\<close> of a sequence: a negative index counts from the end.\<close>

definition py_index :: "'a list \<Rightarrow> int \<Rightarrow> exn_class + 'a" where
  "py_index xs i =
     (let n = int (length xs) in
      if 0 \<le> i \<and> i < n then Inr (xs ! nat i)
      else if - n \<le> i \<and> i < 0 then Inr (xs ! nat (n + i))
      else Inl IndexError)"

text \<open>
  Python slicing \<open>xs[i:j]\<close> with integer bounds: a negative bound counts from the end,
  and both bounds are clamped to the sequence. \<open>xs[:j]\<close> is \<open>xs[0:j]\<close>.
\<close>

definition slice_bound :: "int \<Rightarrow> int \<Rightarrow> nat" where
  "slice_bound n i = nat (if i < 0 then max 0 (n + i) else min n i)"

definition py_slice :: "'a list \<Rightarrow> int \<Rightarrow> int \<Rightarrow> 'a list" where
  "py_slice xs i j =
     (let n = int (length xs); a = slice_bound n i; b = slice_bound n j
      in take (b - a) (drop a xs))"

section \<open>The fallback selector\<close>

text \<open>A quiz item is a dictionary with the keys \<open>prompt\<close> and \<open>solution\<close>.\<close>

type_synonym quiz = "pystr \<rightharpoonup> pystr"

definition quiz_item :: "pystr \<Rightarrow> pystr \<Rightarrow> quiz" where
  "quiz_item p s = [str_lit ''prompt'' \<mapsto> p, str_lit ''solution'' \<mapsto> s]"

text \<open>The list \<open>pool\<close> of \<open>_fallback_question\<close>, built anew by every call.\<close>

definition pool :: "quiz list" where
  "pool =
     [ quiz_item (str_lit ''If f(x) = 2x^2 - 3x + 1, what is f(3)?'') (str_lit ''10''),
       quiz_item
         (str_lit ''Which planet has the strongest surface gravity among Earth, Mars, and Jupiter?'')
         (str_lit ''Jupiter''),
       quiz_item (str_lit ''Who wrote the play 'Hamlet'?'')
         (str_lit ''William Shakespeare''),
       quiz_item
         (str_lit ''In chemistry, what is the pH of a neutral solution at 25'' @ [176] @ str_lit ''C?'')
         (str_lit ''7''),
       quiz_item
         (str_lit ''What is the Big-O time complexity of binary search on a sorted array?'')
         (str_lit ''O(log n)'') ]"

text \<open>
  The index computed by \<open>_fallback_question\<close>:
  \<^verbatim>\<open>(len(os.getenv("HOSTNAME", "x")) + len(os.getenv("PORT", "0"))) % len(pool)\<close>.
  Python's \<open>%\<close> with a positive right operand is \<open>mod\<close> on \<open>int\<close>.
\<close>

definition fallback_idx :: "environ \<Rightarrow> int" where
  "fallback_idx env =
     (int (length (getenv_default env (str_lit ''HOSTNAME'') (str_lit ''x'')))
      + int (length (getenv_default env (str_lit ''PORT'') (str_lit ''0''))))
     mod int (length pool)"

text \<open>
  \<open>_fallback_question\<close> (an Isabelle name cannot begin with an underscore): it reads the
  environment, writes nothing, and returns \<open>pool[idx]\<close>, which raises \<open>IndexError\<close> when
  the index is out of range.
\<close>

definition fallback_question :: "environ \<Rightarrow> exn_class + quiz" where
  "fallback_question env = py_index pool (fallback_idx env)"

section \<open>JSON values and the operations of Python on them\<close>

text \<open>
  What \<open>resp.json()\<close> and \<open>json.loads\<close> return: \<open>None\<close>, a \<open>bool\<close>, an \<open>int\<close>, a
  \<open>float\<close> (its IEEE 754 binary64 pattern), a \<open>str\<close>, a \<open>list\<close>, or a \<open>dict\<close> with \<open>str\<close>
  keys (an association list with \<open>map_of\<close> as lookup).
\<close>

datatype json =
  JNull | JBool bool | JInt int | JFloat "64 word" | JStr pystr
  | JArr "json list" | JObj "(pystr \<times> json) list"

text \<open>
  Truth value of an object, as \<open>not text\<close> tests it: \<open>None\<close>, \<open>False\<close>, zero, and the empty
  string, list and dictionary are false. A float is false when it is \<open>0.0\<close> or \<open>-0.0\<close>,
  that is when all bits but the sign are clear.
\<close>

fun truthy :: "json \<Rightarrow> bool" where
  "truthy JNull = False"
| "truthy (JBool b) = b"
| "truthy (JInt i) = (i \<noteq> 0)"
| "truthy (JFloat w) = (push_bit 1 w \<noteq> 0)"
| "truthy (JStr s) = (s \<noteq> [])"
| "truthy (JArr xs) = (xs \<noteq> [])"
| "truthy (JObj kvs) = (kvs \<noteq> [])"

definition bind_exn :: "exn_class + 'a \<Rightarrow> ('a \<Rightarrow> exn_class + 'b) \<Rightarrow> exn_class + 'b" where
  "bind_exn r f = (case r of Inl e \<Rightarrow> Inl e | Inr v \<Rightarrow> f v)"

text \<open>
  Subscription \<open>x[k]\<close> with a string key: a dictionary looks the key up and raises
  \<open>KeyError\<close> when it is absent; a list or a string raises \<open>TypeError\<close> (indices must be
  integers), and so does every object that is not subscriptable.
\<close>

fun getitem_key :: "json \<Rightarrow> pystr \<Rightarrow> exn_class + json" where
  "getitem_key (JObj kvs) k = (case map_of kvs k of None \<Rightarrow> Inl KeyError | Some v \<Rightarrow> Inr v)"
| "getitem_key _ k = Inl TypeError"

text \<open>
  Subscription \<open>x[i]\<close> with an integer: a list gives its element and a string the
  one-character string at that index, with \<open>IndexError\<close> out of range; a dictionary
  with string keys has no integer key and raises \<open>KeyError\<close>; the other objects are not
  subscriptable.
\<close>

fun getitem_int :: "json \<Rightarrow> int \<Rightarrow> exn_class + json" where
  "getitem_int (JArr xs) i = py_index xs i"
| "getitem_int (JStr s) i = bind_exn (py_index s i) (\<lambda>c. Inr (JStr [c]))"
| "getitem_int (JObj kvs) i = Inl KeyError"
| "getitem_int _ i = Inl TypeError"

text \<open>
  The characters for which \<open>str.isspace\<close> holds; \<open>str.strip()\<close> removes them from both
  ends, and \<open>str.strip(chars)\<close> removes the characters of \<open>chars\<close> from both ends.
\<close>

definition is_space :: "nat \<Rightarrow> bool" where
  "is_space c =
     ((9 \<le> c \<and> c \<le> 13) \<or> (28 \<le> c \<and> c \<le> 32) \<or> c = 133 \<or> c = 160 \<or> c = 5760
      \<or> (8192 \<le> c \<and> c \<le> 8202) \<or> c = 8232 \<or> c = 8233 \<or> c = 8239 \<or> c = 8287
      \<or> c = 12288)"

definition strip_where :: "(nat \<Rightarrow> bool) \<Rightarrow> pystr \<Rightarrow> pystr" where
  "strip_where P s = rev (dropWhile P (rev (dropWhile P s)))"

definition py_strip :: "pystr \<Rightarrow> pystr" where
  "py_strip s = strip_where is_space s"

definition py_strip_chars :: "pystr \<Rightarrow> pystr \<Rightarrow> pystr" where
  "py_strip_chars s chars = strip_where (\<lambda>c. c \<in> set chars) s"

text \<open>
  \<open>s.find(c)\<close> and \<open>s.rfind(c)\<close> for a one-character string \<open>c\<close>: the index of the first
  and of the last occurrence, \<open>-1\<close> when there is none.
\<close>

fun py_find :: "pystr \<Rightarrow> nat \<Rightarrow> int" where
  "py_find [] c = - 1"
| "py_find (x # xs) c =
     (if x = c then 0 else (let r = py_find xs c in if r = - 1 then - 1 else r + 1))"

definition py_rfind :: "pystr \<Rightarrow> nat \<Rightarrow> int" where
  "py_rfind s c =
     (let r = py_find (rev s) c in if r = - 1 then - 1 else int (length s) - 1 - r)"

text \<open>
  The method \<open>strip\<close> exists on a string only, and \<open>get\<close> on a dictionary only: on any
  other object the attribute lookup raises \<open>AttributeError\<close>.
\<close>

fun method_strip :: "json \<Rightarrow> exn_class + pystr" where
  "method_strip (JStr s) = Inr (py_strip s)"
| "method_strip _ = Inl AttributeError"

fun method_get :: "json \<Rightarrow> pystr \<Rightarrow> json \<Rightarrow> exn_class + json" where
  "method_get (JObj kvs) k d = Inr (case map_of kvs k of None \<Rightarrow> d | Some v \<Rightarrow> v)"
| "method_get _ k d = Inl AttributeError"

text \<open>
  The library functions the endpoint calls and this repository does not define:
  \<open>json.loads\<close>, which returns a value or raises, and \<open>str\<close> on a number, a list or a
  dictionary, whose result depends on the interpreter (float formatting, the limit
  on the digits of an integer). \<open>str\<close> of a string is the string, \<open>str(None)\<close> is
  \<open>None\<close>, and \<open>str\<close> of a \<open>bool\<close> is \<open>True\<close> or \<open>False\<close>.
\<close>

record pylib =
  json_loads :: "pystr \<Rightarrow> exn_class + json"
  str_other :: "json \<Rightarrow> exn_class + pystr"

fun py_str :: "pylib \<Rightarrow> json \<Rightarrow> exn_class + pystr" where
  "py_str lib (JStr s) = Inr s"
| "py_str lib JNull = Inr (str_lit ''None'')"
| "py_str lib (JBool b) = Inr (if b then str_lit ''True'' else str_lit ''False'')"
| "py_str lib v = str_other lib v"

section \<open>The quiz endpoint\<close>

text \<open>
  What the upstream does with the one request of a call: \<open>requests.post\<close> raises (no
  connection, timeout), or it returns a response on which \<open>raise_for_status()\<close> raises
  or not and \<open>json()\<close> raises or returns the decoded body.
\<close>

record http_response =
  raise_for_status :: "exn_class option"
  json_body :: "exn_class + json"

datatype upstream = PostRaises exn_class | Responded http_response

text \<open>\<open>data["candidates"][0]["content"]["parts"][0]["text"]\<close>\<close>

definition candidate_text :: "json \<Rightarrow> exn_class + json" where
  "candidate_text data =
     bind_exn (getitem_key data (str_lit ''candidates'')) (\<lambda>a.
     bind_exn (getitem_int a 0) (\<lambda>b.
     bind_exn (getitem_key b (str_lit ''content'')) (\<lambda>c.
     bind_exn (getitem_key c (str_lit ''parts'')) (\<lambda>d.
     bind_exn (getitem_int d 0) (\<lambda>e.
     getitem_key e (str_lit ''text''))))))"

text \<open>
  The body of the \<open>try\<close> statement of \<open>get_quiz\<close> (lines 109 to 148): \<open>Inl\<close> is an
  exception that leaves the body, \<open>Inr\<close> the value of a \<open>return\<close>. The code points 96,
  123 and 125 are the backtick and the two braces.
\<close>

definition get_quiz_try :: "pylib \<Rightarrow> environ \<Rightarrow> upstream \<Rightarrow> exn_class + quiz" where
  "get_quiz_try lib env up =
     (case up of
        PostRaises e \<Rightarrow> Inl e
      | Responded resp \<Rightarrow>
          (case raise_for_status resp of
             Some e \<Rightarrow> Inl e
           | None \<Rightarrow>
               bind_exn (json_body resp) (\<lambda>data.
               let text = (case candidate_text data of Inl e \<Rightarrow> JNull | Inr t \<Rightarrow> t) in
               if \<not> truthy text then fallback_question env
               else
                 bind_exn (method_strip text) (\<lambda>stripped.
                 let text_stripped = py_strip_chars stripped [96];
                     start = py_find text_stripped 123;
                     end = py_rfind text_stripped 125
                 in
                   if start = - 1 \<or> end = - 1 then fallback_question env
                   else
                     let json_str = py_slice text_stripped start (end + 1) in
                     bind_exn (json_loads lib json_str) (\<lambda>obj.
                     bind_exn (method_get obj (str_lit ''prompt'') (JStr [])) (\<lambda>pv.
                     bind_exn (py_str lib pv) (\<lambda>ps.
                     let prompt = py_strip ps in
                     bind_exn (method_get obj (str_lit ''solution'') (JStr [])) (\<lambda>sv.
                     bind_exn (py_str lib sv) (\<lambda>ss.
                     let solution = py_strip ss in
                     if prompt = [] \<or> solution = [] then fallback_question env
                     else Inr (quiz_item (py_slice prompt 0 300) (py_slice solution 0 100)))))))))))"

text \<open>
  \<open>get_quiz\<close>: \<open>not api_key\<close> holds for an unset and for an empty variable; the handler
  \<open>except Exception\<close> calls the fallback selector for every exception of the body.
\<close>

definition get_quiz :: "pylib \<Rightarrow> environ \<Rightarrow> upstream \<Rightarrow> exn_class + quiz" where
  "get_quiz lib env up =
     (case getenv env (str_lit ''GEMINI_API_KEY'') of
        None \<Rightarrow> fallback_question env
      | Some api_key \<Rightarrow>
          if api_key = [] then fallback_question env
          else (case get_quiz_try lib env up of
                  Inl e \<Rightarrow> fallback_question env
                | Inr q \<Rightarrow> Inr q))"

section \<open>The status endpoint\<close>

text \<open>
  The values of the status response: \<open>None\<close>, a string, or a list of names. An
  exception bound by \<open>except ... as e\<close> is its class and the text \<open>str(e)\<close>.
\<close>

datatype rval = RNone | RStr pystr | RList "pystr list"

type_synonym status = "pystr \<rightharpoonup> rval"

datatype py_exn = PyExn (exn_cls: exn_class) (exn_str: pystr)

text \<open>
  The database collaborator. \<open>from database import db\<close> raises (\<open>ImportError\<close> when the
  module or the name is missing, anything else when the module's own code fails) or
  binds \<open>db\<close> to \<open>None\<close> or to a handle. Reading the attribute \<open>name\<close> of the handle finds
  no attribute, gives a value, or raises (a property); \<open>list_collection_names()\<close>
  returns a list of names or raises. A result that cannot be sliced raises
  \<open>TypeError\<close> at \<open>collections[:10]\<close>, inside the same \<open>try\<close>, and counts as raising.
\<close>

datatype attr = NoAttr | Attr rval | AttrRaises py_exn

record db_handle =
  name_attr :: attr
  list_collection_names :: "py_exn + pystr list"

datatype db_import = ImportRaises py_exn | Imported "db_handle option"

text \<open>
  \<open>db.name if hasattr(db, 'name') else "... Connected"\<close>: \<open>hasattr\<close> is false when the
  lookup raises \<open>AttributeError\<close> and lets every other exception through.
\<close>

definition name_or_connected :: "db_handle \<Rightarrow> py_exn + rval" where
  "name_or_connected db =
     (case name_attr db of
        NoAttr \<Rightarrow> Inr (RStr (9989 # str_lit '' Connected''))
      | Attr v \<Rightarrow> Inr v
      | AttrRaises e \<Rightarrow>
          if exn_cls e = AttributeError then Inr (RStr (9989 # str_lit '' Connected''))
          else Inl e)"

text \<open>
  The body of the outer \<open>try\<close> of \<open>test_database\<close> (lines 39 to 56). The assignments made
  before an exception stay in \<open>response\<close>, so the body returns the dictionary together
  with the exception that left it, if any. The code points 9989, 10060 and 9888, 65039
  are the check mark, the cross mark and the warning sign of the source's literals.
\<close>

definition test_database_try :: "db_import \<Rightarrow> status \<Rightarrow> status \<times> py_exn option" where
  "test_database_try imp response =
     (case imp of
        ImportRaises e \<Rightarrow> (response, Some e)
      | Imported None \<Rightarrow>
          (response(str_lit ''database'' \<mapsto>
             RStr ([9888, 65039] @ str_lit ''  Available but not initialized'')), None)
      | Imported (Some db) \<Rightarrow>
          (let r1 = response(str_lit ''database'' \<mapsto> RStr (9989 # str_lit '' Available''));
               r2 = r1(str_lit ''database_url'' \<mapsto> RStr (9989 # str_lit '' Configured''))
           in case name_or_connected db of
                Inl e \<Rightarrow> (r2, Some e)
              | Inr v \<Rightarrow>
                  (let r3 = r2(str_lit ''database_name'' \<mapsto> v);
                       r4 = r3(str_lit ''connection_status'' \<mapsto> RStr (str_lit ''Connected''))
                   in case list_collection_names db of
                        Inr collections \<Rightarrow>
                          (let r5 = r4(str_lit ''collections'' \<mapsto> RList (py_slice collections 0 10))
                           in (r5(str_lit ''database'' \<mapsto>
                                 RStr (9989 # str_lit '' Connected & Working'')), None))
                      | Inl e \<Rightarrow>
                          (r4(str_lit ''database'' \<mapsto>
                             RStr ([9888, 65039] @ str_lit ''  Connected but Error: ''
                                   @ py_slice (exn_str e) 0 50)), None))))"

text \<open>\<open>os.getenv(k)\<close> as a condition: true for a variable that is set and not empty.\<close>

definition getenv_truthy :: "environ \<Rightarrow> pystr \<Rightarrow> bool" where
  "getenv_truthy env k = (case getenv env k of None \<Rightarrow> False | Some v \<Rightarrow> v \<noteq> [])"

definition set_or_not :: "bool \<Rightarrow> rval" where
  "set_or_not b = (if b then RStr (9989 # str_lit '' Set'') else RStr (10060 # str_lit '' Not Set''))"

text \<open>The dictionary that \<open>test_database\<close> starts from (lines 29 to 36).\<close>

definition initial_response :: status where
  "initial_response =
     [str_lit ''backend'' \<mapsto> RStr (9989 # str_lit '' Running''),
      str_lit ''database'' \<mapsto> RStr (10060 # str_lit '' Not Available''),
      str_lit ''database_url'' \<mapsto> RNone,
      str_lit ''database_name'' \<mapsto> RNone,
      str_lit ''connection_status'' \<mapsto> RStr (str_lit ''Not Connected''),
      str_lit ''collections'' \<mapsto> RList []]"

text \<open>
  \<open>test_database\<close>: the two handlers of the outer \<open>try\<close> overwrite \<open>database\<close>, then the
  two environment checks overwrite \<open>database_url\<close> and \<open>database_name\<close>.
\<close>

definition test_database :: "environ \<Rightarrow> db_import \<Rightarrow> status" where
  "test_database env imp =
     (let response = initial_response;
          (r, raised) = test_database_try imp response;
          r1 = (case raised of
                  None \<Rightarrow> r
                | Some e \<Rightarrow>
                    if exn_cls e = ImportError
                    then r(str_lit ''database'' \<mapsto>
                           RStr (10060 # str_lit '' Database module not found (run enable-database first)''))
                    else r(str_lit ''database'' \<mapsto>
                           RStr (10060 # str_lit '' Error: '' @ py_slice (exn_str e) 0 50)));
          r2 = r1(str_lit ''database_url'' \<mapsto>
                    set_or_not (getenv_truthy env (str_lit ''DATABASE_URL'')))
      in r2(str_lit ''database_name'' \<mapsto>
              set_or_not (getenv_truthy env (str_lit ''DATABASE_NAME''))))"

section \<open>Example inputs\<close>

text \<open>
  Concrete inputs at which the statements below are instantiated: an environment with
  \<open>HOSTNAME=abc\<close> and \<open>PORT=8000\<close>, the same with a credential, and an upstream that
  answers with one candidate whose text is a JSON object between backticks, with
  \<open>json.loads\<close> restricted to that one object.
\<close>

definition ex_env :: environ where
  "ex_env = [str_lit ''HOSTNAME'' \<mapsto> str_lit ''abc'', str_lit ''PORT'' \<mapsto> str_lit ''8000'']"

definition ex_env_key :: environ where
  "ex_env_key = ex_env(str_lit ''GEMINI_API_KEY'' \<mapsto> str_lit ''secret'')"

definition ex_json_str :: pystr where
  "ex_json_str =
     [123, 34] @ str_lit ''prompt'' @ [34, 58, 34] @ str_lit '' Capital of France? ''
     @ [34, 44, 34] @ str_lit ''solution'' @ [34, 58, 34] @ str_lit ''Paris'' @ [34, 125]"

definition ex_obj :: json where
  "ex_obj = JObj [(str_lit ''prompt'', JStr (str_lit '' Capital of France? '')),
                  (str_lit ''solution'', JStr (str_lit ''Paris''))]"

definition ex_lib :: pylib where
  "ex_lib = \<lparr> json_loads = (\<lambda>s. if s = ex_json_str then Inr ex_obj else Inl ValueError),
              str_other = (\<lambda>v. Inl TypeError) \<rparr>"

definition ex_text :: pystr where
  "ex_text = [96, 96, 96] @ ex_json_str @ [10, 96, 96, 96]"

definition ex_data :: json where
  "ex_data =
     JObj [(str_lit ''candidates'',
            JArr [JObj [(str_lit ''content'',
                         JObj [(str_lit ''parts'',
                                JArr [JObj [(str_lit ''text'', JStr ex_text)]])])]])]"

definition ex_upstream :: upstream where
  "ex_upstream = Responded \<lparr> raise_for_status = None, json_body = Inr ex_data \<rparr>"

text \<open>
  An upstream whose candidate text holds the same JSON object between some words and
  a later closing brace: \<open>Sure! {...} (ok) }\<close>. On the text from the first opening to
  the last closing brace \<open>json.loads\<close> raises (extra data after the object).
\<close>

definition ex_text_trailing :: pystr where
  "ex_text_trailing = str_lit ''Sure! '' @ ex_json_str @ str_lit '' (ok) '' @ [125]"

definition ex_data_trailing :: json where
  "ex_data_trailing =
     JObj [(str_lit ''candidates'',
            JArr [JObj [(str_lit ''content'',
                         JObj [(str_lit ''parts'',
                                JArr [JObj [(str_lit ''text'', JStr ex_text_trailing)]])])]])]"

definition ex_upstream_trailing :: upstream where
  "ex_upstream_trailing =
     Responded \<lparr> raise_for_status = None, json_body = Inr ex_data_trailing \<rparr>"

text \<open>
  A database handle with a name and twelve collections, and two environments in which
  \<open>DATABASE_URL\<close> is set, to the empty string in the first.
\<close>

definition ex_db :: db_handle where
  "ex_db = \<lparr> name_attr = Attr (RStr (str_lit ''quizdb'')),
             list_collection_names =
               Inr [str_lit ''c01'', str_lit ''c02'', str_lit ''c03'', str_lit ''c04'',
                    str_lit ''c05'', str_lit ''c06'', str_lit ''c07'', str_lit ''c08'',
                    str_lit ''c09'', str_lit ''c10'', str_lit ''c11'', str_lit ''c12''] \<rparr>"

definition ex_env_url_empty :: environ where
  "ex_env_url_empty = [str_lit ''DATABASE_URL'' \<mapsto> []]"

definition ex_env_url_set :: environ where
  "ex_env_url_set = [str_lit ''DATABASE_URL'' \<mapsto> str_lit ''mongodb://db'']"

section \<open>Properties of the fallback selector\<close>

lemma length_pool: "length pool = 5"
  by (simp add: pool_def)

lemma fallback_idx_range: "0 \<le> fallback_idx env \<and> fallback_idx env < 5"
  by (simp add: fallback_idx_def length_pool)

lemma fallback_question_nth:
  "fallback_question env = Inr (pool ! nat (fallback_idx env))"
  using fallback_idx_range [of env]
  by (simp add: fallback_question_def py_index_def length_pool)

lemma fallback_question_in_pool:
  "\<exists>q \<in> set pool. fallback_question env = Inr q"
proof -
  have "nat (fallback_idx env) < length pool"
    using fallback_idx_range [of env] by (auto simp: length_pool)
  then have "pool ! nat (fallback_idx env) \<in> set pool"
    by (rule nth_mem)
  then show ?thesis
    by (auto simp: fallback_question_nth)
qed

lemma fallback_idx_set:
  assumes "getenv env (str_lit ''HOSTNAME'') = Some h"
    and "getenv env (str_lit ''PORT'') = Some p"
  shows "fallback_idx env = (int (length h) + int (length p)) mod 5"
  using assms by (simp add: fallback_idx_def getenv_def getenv_default_def length_pool)

lemma fallback_idx_ex_env: "fallback_idx ex_env = 2"
  by (simp add: fallback_idx_def getenv_default_def length_pool ex_env_def str_lit_def)

lemma pool_nth_2:
  "pool ! 2 = quiz_item (str_lit ''Who wrote the play 'Hamlet'?'') (str_lit ''William Shakespeare'')"
  by (simp add: pool_def)

text \<open>
  C3. The index of the fallback selector is the sum of the lengths of the values of
  \<open>HOSTNAME\<close> and \<open>PORT\<close> modulo 5, the size of the pool, and the item returned is the
  one at that index. For \<open>HOSTNAME=abc\<close> and \<open>PORT=8000\<close> the index is
  \<open>(3 + 4) mod 5 = 2\<close> and the item is the question about the author of Hamlet.
\<close>

theorem fallback_index_length_sum:
  "(getenv env (str_lit ''HOSTNAME'') = Some h \<and> getenv env (str_lit ''PORT'') = Some p \<longrightarrow>
      fallback_idx env = (int (length h) + int (length p)) mod 5
      \<and> fallback_question env = py_index pool ((int (length h) + int (length p)) mod 5))
   \<and> fallback_idx
        [str_lit ''HOSTNAME'' \<mapsto> str_lit ''abc'', str_lit ''PORT'' \<mapsto> str_lit ''8000'']
      = (3 + 4) mod 5
   \<and> fallback_question
        [str_lit ''HOSTNAME'' \<mapsto> str_lit ''abc'', str_lit ''PORT'' \<mapsto> str_lit ''8000'']
      = Inr (quiz_item (str_lit ''Who wrote the play 'Hamlet'?'')
               (str_lit ''William Shakespeare''))"
proof -
  have general: "fallback_idx env = (int (length h) + int (length p)) mod 5
      \<and> fallback_question env = py_index pool ((int (length h) + int (length p)) mod 5)"
    if "getenv env (str_lit ''HOSTNAME'') = Some h" "getenv env (str_lit ''PORT'') = Some p"
    using fallback_idx_set [OF that] by (simp add: fallback_question_def)
  have idx: "fallback_idx ex_env = (3 + 4) mod 5"
    by (simp add: fallback_idx_ex_env)
  have "fallback_question ex_env = Inr (pool ! 2)"
    by (simp add: fallback_question_nth fallback_idx_ex_env)
  then have item: "fallback_question ex_env
      = Inr (quiz_item (str_lit ''Who wrote the play 'Hamlet'?'') (str_lit ''William Shakespeare''))"
    by (simp only: pool_nth_2)
  from general idx item show ?thesis
    unfolding ex_env_def by blast
qed

theorem fallback_index_length_sum_witness:
  "getenv ex_env (str_lit ''HOSTNAME'') = Some (str_lit ''abc'')
   \<and> getenv ex_env (str_lit ''PORT'') = Some (str_lit ''8000'')
   \<and> fallback_idx ex_env = (int (length (str_lit ''abc'')) + int (length (str_lit ''8000''))) mod 5
   \<and> fallback_question ex_env
       = py_index pool ((int (length (str_lit ''abc'')) + int (length (str_lit ''8000''))) mod 5)"
proof -
  have h: "getenv ex_env (str_lit ''HOSTNAME'') = Some (str_lit ''abc'')"
    by (simp add: getenv_def ex_env_def str_lit_def)
  have p: "getenv ex_env (str_lit ''PORT'') = Some (str_lit ''8000'')"
    by (simp add: getenv_def ex_env_def)
  from h p fallback_index_length_sum [of ex_env "str_lit ''abc''" "str_lit ''8000''"]
  show ?thesis by blast
qed

text \<open>
  C10. Whatever the environment, the index lies between 0 and 4, so it is a valid index
  of the pool of 5 items and the selector returns the item there without raising. With
  both variables unset the defaults \<open>x\<close> and \<open>0\<close> give the index 2.
\<close>

theorem fallback_index_in_bounds:
  "0 \<le> fallback_idx env \<and> fallback_idx env \<le> 4
   \<and> nat (fallback_idx env) < length pool
   \<and> fallback_question env = Inr (pool ! nat (fallback_idx env))
   \<and> (getenv env (str_lit ''HOSTNAME'') = None \<and> getenv env (str_lit ''PORT'') = None \<longrightarrow>
        fallback_idx env = (int (length (str_lit ''x'')) + int (length (str_lit ''0''))) mod 5
        \<and> fallback_idx env = 2)"
proof -
  have "fallback_idx env = (int (length (str_lit ''x'')) + int (length (str_lit ''0''))) mod 5
        \<and> fallback_idx env = 2"
    if "getenv env (str_lit ''HOSTNAME'') = None" "getenv env (str_lit ''PORT'') = None"
    using that
    by (simp add: fallback_idx_def getenv_def getenv_default_def length_pool str_lit_def)
  with fallback_idx_range [of env] fallback_question_nth [of env] show ?thesis
    by (auto simp: length_pool)
qed

theorem fallback_index_in_bounds_witness:
  "getenv Map.empty (str_lit ''HOSTNAME'') = None \<and> getenv Map.empty (str_lit ''PORT'') = None
   \<and> fallback_idx Map.empty = 2
   \<and> fallback_question Map.empty = Inr (pool ! 2)"
proof -
  have unset: "getenv Map.empty (str_lit ''HOSTNAME'') = None \<and> getenv Map.empty (str_lit ''PORT'') = None"
    by (simp add: getenv_def)
  with fallback_index_in_bounds [of Map.empty] have idx: "fallback_idx Map.empty = 2"
    by blast
  from fallback_index_in_bounds [of Map.empty]
  have "fallback_question Map.empty = Inr (pool ! nat (fallback_idx Map.empty))"
    by blast
  with idx have "fallback_question Map.empty = Inr (pool ! 2)"
    by simp
  with unset idx show ?thesis
    by blast
qed

text \<open>
  C5. The selector is a function of the values (or absence) of \<open>HOSTNAME\<close> and \<open>PORT\<close>
  alone: two calls in environments that agree on these two variables return the same
  item. The selector reads the environment and a list of its own; it has no other
  state to read or to write.
\<close>

theorem fallback_deterministic:
  assumes "getenv env1 (str_lit ''HOSTNAME'') = getenv env2 (str_lit ''HOSTNAME'')"
    and "getenv env1 (str_lit ''PORT'') = getenv env2 (str_lit ''PORT'')"
  shows "fallback_question env1 = fallback_question env2"
proof -
  from assms have "fallback_idx env1 = fallback_idx env2"
    by (simp add: fallback_idx_def getenv_def getenv_default_def)
  then show ?thesis
    by (simp add: fallback_question_def)
qed

theorem fallback_deterministic_witness:
  "getenv ex_env (str_lit ''HOSTNAME'') = getenv ex_env_key (str_lit ''HOSTNAME'')
   \<and> getenv ex_env (str_lit ''PORT'') = getenv ex_env_key (str_lit ''PORT'')
   \<and> getenv ex_env (str_lit ''GEMINI_API_KEY'') \<noteq> getenv ex_env_key (str_lit ''GEMINI_API_KEY'')
   \<and> fallback_question ex_env = fallback_question ex_env_key"
proof -
  have h: "getenv ex_env (str_lit ''HOSTNAME'') = getenv ex_env_key (str_lit ''HOSTNAME'')"
    by (simp add: getenv_def ex_env_key_def str_lit_def)
  have p: "getenv ex_env (str_lit ''PORT'') = getenv ex_env_key (str_lit ''PORT'')"
    by (simp add: getenv_def ex_env_key_def str_lit_def)
  have k: "getenv ex_env (str_lit ''GEMINI_API_KEY'') \<noteq> getenv ex_env_key (str_lit ''GEMINI_API_KEY'')"
    by (simp add: getenv_def ex_env_key_def ex_env_def str_lit_def)
  from h p k fallback_deterministic [OF h p] show ?thesis by blast
qed

section \<open>Properties of the quiz endpoint\<close>

lemma py_slice_prefix: "0 \<le> k \<Longrightarrow> py_slice xs 0 k = take (nat k) xs"
  by (simp add: py_slice_def slice_bound_def Let_def min_def)

lemma bind_exn_Inr: "bind_exn r f = Inr y \<longleftrightarrow> (\<exists>v. r = Inr v \<and> f v = Inr y)"
  by (cases r) (simp_all add: bind_exn_def)

lemma bind_exn_Inr_eq: "bind_exn (Inr v) f = f v"
  by (simp add: bind_exn_def)

lemma bind_exn_Inl_eq: "bind_exn (Inl e) f = Inl e"
  by (simp add: bind_exn_def)

lemma method_strip_Inr: "method_strip v = Inr s \<longleftrightarrow> (\<exists>t. v = JStr t \<and> s = py_strip t)"
  by (cases v) auto

lemma method_get_Inr:
  "method_get v k d = Inr r \<longleftrightarrow>
     (\<exists>kvs. v = JObj kvs \<and> r = (case map_of kvs k of None \<Rightarrow> d | Some x \<Rightarrow> x))"
  by (cases v) auto

lemma truthy_text:
  "truthy (case r of Inl e \<Rightarrow> JNull | Inr t \<Rightarrow> t) \<Longrightarrow> method_strip (case r of Inl e \<Rightarrow> JNull | Inr t \<Rightarrow> t) = Inr s
    \<Longrightarrow> \<exists>t. r = Inr (JStr t) \<and> t \<noteq> [] \<and> s = py_strip t"
proof (cases r)
  case (Inl e)
  assume "truthy (case r of Inl e \<Rightarrow> JNull | Inr t \<Rightarrow> t)"
  with Inl show ?thesis by simp
next
  case (Inr v)
  assume a: "truthy (case r of Inl e \<Rightarrow> JNull | Inr t \<Rightarrow> t)"
    and b: "method_strip (case r of Inl e \<Rightarrow> JNull | Inr t \<Rightarrow> t) = Inr s"
  from b Inr have "method_strip v = Inr s" by simp
  then obtain t where t: "v = JStr t" "s = py_strip t"
    unfolding method_strip_Inr by blast
  from a Inr t have "t \<noteq> []" by simp
  with Inr t show ?thesis by simp
qed


lemma get_quiz_try_Inr:
  assumes "get_quiz_try lib env up = Inr q"
  shows "Inr q = fallback_question env
     \<or> (\<exists>resp data t kvs ps ss.
          up = Responded resp \<and> raise_for_status resp = None \<and> json_body resp = Inr data
          \<and> candidate_text data = Inr (JStr t) \<and> t \<noteq> []
          \<and> py_find (py_strip_chars (py_strip t) [96]) 123 \<noteq> - 1
          \<and> py_rfind (py_strip_chars (py_strip t) [96]) 125 \<noteq> - 1
          \<and> json_loads lib
                (py_slice (py_strip_chars (py_strip t) [96])
                   (py_find (py_strip_chars (py_strip t) [96]) 123)
                   (py_rfind (py_strip_chars (py_strip t) [96]) 125 + 1)) = Inr (JObj kvs)
          \<and> py_str lib (case map_of kvs (str_lit ''prompt'') of None \<Rightarrow> JStr [] | Some v \<Rightarrow> v) = Inr ps
          \<and> py_str lib (case map_of kvs (str_lit ''solution'') of None \<Rightarrow> JStr [] | Some v \<Rightarrow> v) = Inr ss
          \<and> py_strip ps \<noteq> [] \<and> py_strip ss \<noteq> []
          \<and> Inr q = Inr (quiz_item (take 300 (py_strip ps)) (take 100 (py_strip ss))))"
proof (cases up)
  case (PostRaises e)
  with assms show ?thesis by (simp add: get_quiz_try_def)
next
  case (Responded resp)
  show ?thesis
  proof (cases "raise_for_status resp")
    case (Some e)
    with assms Responded show ?thesis by (simp add: get_quiz_try_def)
  next
    case None
    show ?thesis
    proof (cases "json_body resp")
      case (Inl e)
      with assms Responded None show ?thesis by (simp add: get_quiz_try_def bind_exn_def)
    next
      case body: (Inr data)
      define tx where "tx = (case candidate_text data of Inl e \<Rightarrow> JNull | Inr t \<Rightarrow> t)"
      define ts where "ts = (\<lambda>stripped. py_strip_chars stripped [96])"
      define rest where "rest = (\<lambda>stripped.
         if py_find (ts stripped) 123 = - 1 \<or> py_rfind (ts stripped) 125 = - 1 then fallback_question env
         else
           bind_exn (json_loads lib (py_slice (ts stripped) (py_find (ts stripped) 123) (py_rfind (ts stripped) 125 + 1))) (\<lambda>obj.
           bind_exn (method_get obj (str_lit ''prompt'') (JStr [])) (\<lambda>pv.
           bind_exn (py_str lib pv) (\<lambda>ps.
           bind_exn (method_get obj (str_lit ''solution'') (JStr [])) (\<lambda>sv.
           bind_exn (py_str lib sv) (\<lambda>ss.
           if py_strip ps = [] \<or> py_strip ss = [] then fallback_question env
           else Inr (quiz_item (py_slice (py_strip ps) 0 300) (py_slice (py_strip ss) 0 100))))))))"
      have unfolded: "get_quiz_try lib env up =
          (if \<not> truthy tx then fallback_question env else bind_exn (method_strip tx) rest)"
        using Responded None body
        by (simp add: get_quiz_try_def bind_exn_Inr_eq tx_def rest_def ts_def Let_def cong: if_cong)
      show ?thesis
      proof (cases "truthy tx")
        case False
        with assms unfolded show ?thesis by simp
      next
        case True
        with assms unfolded have "bind_exn (method_strip tx) rest = Inr q" by simp
        then obtain stripped where st: "method_strip tx = Inr stripped"
          and r: "rest stripped = Inr q"
          unfolding bind_exn_Inr by blast
        from truthy_text [OF True [unfolded tx_def] st [unfolded tx_def]]
        obtain t where t: "candidate_text data = Inr (JStr t)" "t \<noteq> []" "stripped = py_strip t"
          by blast
        show ?thesis
        proof (cases "py_find (ts stripped) 123 = - 1 \<or> py_rfind (ts stripped) 125 = - 1")
          case True
          with r show ?thesis by (simp add: rest_def)
        next
          case braces: False
          with r have "bind_exn (json_loads lib (py_slice (ts stripped) (py_find (ts stripped) 123) (py_rfind (ts stripped) 125 + 1))) (\<lambda>obj.
             bind_exn (method_get obj (str_lit ''prompt'') (JStr [])) (\<lambda>pv.
             bind_exn (py_str lib pv) (\<lambda>ps.
             bind_exn (method_get obj (str_lit ''solution'') (JStr [])) (\<lambda>sv.
             bind_exn (py_str lib sv) (\<lambda>ss.
             if py_strip ps = [] \<or> py_strip ss = [] then fallback_question env
             else Inr (quiz_item (py_slice (py_strip ps) 0 300) (py_slice (py_strip ss) 0 100))))))) = Inr q"
            by (simp add: rest_def)
          then obtain obj pv ps sv ss where
            loads: "json_loads lib (py_slice (ts stripped) (py_find (ts stripped) 123) (py_rfind (ts stripped) 125 + 1)) = Inr obj"
            and pv: "method_get obj (str_lit ''prompt'') (JStr []) = Inr pv"
            and ps: "py_str lib pv = Inr ps"
            and sv: "method_get obj (str_lit ''solution'') (JStr []) = Inr sv"
            and ss: "py_str lib sv = Inr ss"
            and fin: "(if py_strip ps = [] \<or> py_strip ss = [] then fallback_question env
               else Inr (quiz_item (py_slice (py_strip ps) 0 300) (py_slice (py_strip ss) 0 100))) = Inr q"
            unfolding bind_exn_Inr by blast
          from pv obtain kvs where kvs: "obj = JObj kvs"
            and pv': "pv = (case map_of kvs (str_lit ''prompt'') of None \<Rightarrow> JStr [] | Some x \<Rightarrow> x)"
            unfolding method_get_Inr by blast
          from sv kvs have sv': "sv = (case map_of kvs (str_lit ''solution'') of None \<Rightarrow> JStr [] | Some x \<Rightarrow> x)"
            by simp
          show ?thesis
          proof (cases "py_strip ps = [] \<or> py_strip ss = []")
            case True
            with fin show ?thesis by simp
          next
            case False
            with fin have q: "q = quiz_item (take 300 (py_strip ps)) (take 100 (py_strip ss))"
              by (simp add: py_slice_prefix)
            from braces loads t have
              "py_find (py_strip_chars (py_strip t) [96]) 123 \<noteq> - 1"
              "py_rfind (py_strip_chars (py_strip t) [96]) 125 \<noteq> - 1"
              "json_loads lib
                (py_slice (py_strip_chars (py_strip t) [96])
                   (py_find (py_strip_chars (py_strip t) [96]) 123)
                   (py_rfind (py_strip_chars (py_strip t) [96]) 125 + 1)) = Inr (JObj kvs)"
              using kvs by (simp_all add: ts_def)
            with Responded None body t ps ss False q show ?thesis
              unfolding pv' sv' by blast
          qed
        qed
      qed
    qed
  qed
qed


lemma get_quiz_cases:
  "get_quiz lib env up = fallback_question env
   \<or> (\<exists>resp data t kvs ps ss.
          up = Responded resp \<and> raise_for_status resp = None \<and> json_body resp = Inr data
          \<and> candidate_text data = Inr (JStr t) \<and> t \<noteq> []
          \<and> py_find (py_strip_chars (py_strip t) [96]) 123 \<noteq> - 1
          \<and> py_rfind (py_strip_chars (py_strip t) [96]) 125 \<noteq> - 1
          \<and> json_loads lib
                (py_slice (py_strip_chars (py_strip t) [96])
                   (py_find (py_strip_chars (py_strip t) [96]) 123)
                   (py_rfind (py_strip_chars (py_strip t) [96]) 125 + 1)) = Inr (JObj kvs)
          \<and> py_str lib (case map_of kvs (str_lit ''prompt'') of None \<Rightarrow> JStr [] | Some v \<Rightarrow> v) = Inr ps
          \<and> py_str lib (case map_of kvs (str_lit ''solution'') of None \<Rightarrow> JStr [] | Some v \<Rightarrow> v) = Inr ss
          \<and> py_strip ps \<noteq> [] \<and> py_strip ss \<noteq> []
          \<and> get_quiz lib env up = Inr (quiz_item (take 300 (py_strip ps)) (take 100 (py_strip ss))))"
proof (cases "getenv env (str_lit ''GEMINI_API_KEY'')")
  case None
  then show ?thesis by (simp add: get_quiz_def)
next
  case (Some api_key)
  show ?thesis
  proof (cases "api_key = []")
    case True
    with Some show ?thesis by (simp add: get_quiz_def)
  next
    case False
    show ?thesis
    proof (cases "get_quiz_try lib env up")
      case (Inl e)
      with Some False show ?thesis by (simp add: get_quiz_def)
    next
      case (Inr q)
      with Some False have eq: "get_quiz lib env up = Inr q"
        by (simp add: get_quiz_def)
      from get_quiz_try_Inr [OF Inr] show ?thesis
        unfolding eq by simp
    qed
  qed
qed


lemma quiz_item_inject: "quiz_item p s = quiz_item p' s' \<longleftrightarrow> p = p' \<and> s = s'"
proof
  assume eq: "quiz_item p s = quiz_item p' s'"
  then have at: "quiz_item p s k = quiz_item p' s' k" for k
    by simp
  from at [of "str_lit ''prompt''"] at [of "str_lit ''solution''"]
  show "p = p' \<and> s = s'"
    by (simp add: quiz_item_def str_lit_def)
next
  assume "p = p' \<and> s = s'"
  then show "quiz_item p s = quiz_item p' s'" by simp
qed

lemma quiz_item_valid:
  "p \<noteq> [] \<Longrightarrow> length p \<le> 300 \<Longrightarrow> s \<noteq> [] \<Longrightarrow> length s \<le> 100 \<Longrightarrow>
     \<exists>p' s'. quiz_item p s = quiz_item p' s' \<and> p' \<noteq> [] \<and> length p' \<le> 300
        \<and> s' \<noteq> [] \<and> length s' \<le> 100"
  by blast

lemma pool_items:
  "q \<in> set pool \<Longrightarrow>
     \<exists>p s. q = quiz_item p s \<and> p \<noteq> [] \<and> length p \<le> 300 \<and> s \<noteq> [] \<and> length s \<le> 100"
  unfolding pool_def
  apply (simp only: set_simps insert_iff empty_iff)
  apply (elim disjE)
       apply (simp_all only:)
      apply (rule quiz_item_valid; simp add: str_lit_def)+
  done

lemma fallback_question_valid:
  "\<exists>p s. fallback_question env = Inr (quiz_item p s) \<and> p \<noteq> [] \<and> length p \<le> 300
      \<and> s \<noteq> [] \<and> length s \<le> 100"
proof -
  from fallback_question_in_pool [of env] obtain q where
    q: "q \<in> set pool" "fallback_question env = Inr q" by blast
  from pool_items [OF q(1)] q(2) show ?thesis by auto
qed

lemma find_empty_text: "py_find (py_strip_chars (py_strip []) [96]) 123 = - 1"
  by (simp add: py_strip_def py_strip_chars_def strip_where_def)

lemma get_quiz_success:
  assumes key: "getenv env (str_lit ''GEMINI_API_KEY'') = Some api_key" "api_key \<noteq> []"
    and resp: "raise_for_status resp = None" "json_body resp = Inr data"
    and cand: "candidate_text data = Inr (JStr t)"
    and braces: "py_find (py_strip_chars (py_strip t) [96]) 123 \<noteq> - 1"
      "py_rfind (py_strip_chars (py_strip t) [96]) 125 \<noteq> - 1"
    and loads: "json_loads lib
        (py_slice (py_strip_chars (py_strip t) [96])
           (py_find (py_strip_chars (py_strip t) [96]) 123)
           (py_rfind (py_strip_chars (py_strip t) [96]) 125 + 1)) = Inr (JObj kvs)"
    and prompt: "py_str lib (case map_of kvs (str_lit ''prompt'') of None \<Rightarrow> JStr [] | Some v \<Rightarrow> v) = Inr ps"
      "py_strip ps \<noteq> []"
    and solution: "py_str lib (case map_of kvs (str_lit ''solution'') of None \<Rightarrow> JStr [] | Some v \<Rightarrow> v) = Inr ss"
      "py_strip ss \<noteq> []"
  shows "get_quiz lib env (Responded resp)
    = Inr (quiz_item (take 300 (py_strip ps)) (take 100 (py_strip ss)))"
proof -
  from braces(1) find_empty_text have nonempty: "t \<noteq> []"
    by auto
  have "get_quiz_try lib env (Responded resp)
      = Inr (quiz_item (take 300 (py_strip ps)) (take 100 (py_strip ss)))"
    using resp cand nonempty braces loads prompt solution
    by (simp add: get_quiz_try_def bind_exn_Inr_eq Let_def py_slice_prefix)
  with key show ?thesis
    by (simp add: get_quiz_def)
qed

lemma ex_candidate_text: "candidate_text ex_data = Inr (JStr ex_text)"
  by (simp add: candidate_text_def ex_data_def bind_exn_Inr_eq py_index_def str_lit_def)

lemma ex_text_stripped: "py_strip_chars (py_strip ex_text) [96] = ex_json_str @ [10]"
  by (simp add: py_strip_def py_strip_chars_def strip_where_def is_space_def ex_text_def
      ex_json_str_def str_lit_def)

lemma ex_find: "py_find (ex_json_str @ [10]) 123 = 0"
  by (simp add: ex_json_str_def)

lemma ex_rfind: "py_rfind (ex_json_str @ [10]) 125 = 51"
  by (simp add: py_rfind_def ex_json_str_def str_lit_def)

lemma ex_slice: "py_slice (ex_json_str @ [10]) 0 (51 + 1) = ex_json_str"
  by (simp add: py_slice_def slice_bound_def ex_json_str_def str_lit_def)

lemma ex_strip_prompt: "py_strip (str_lit '' Capital of France? '') = str_lit ''Capital of France?''"
  by (simp add: py_strip_def strip_where_def is_space_def str_lit_def)

lemma ex_strip_solution: "py_strip (str_lit ''Paris'') = str_lit ''Paris''"
  by (simp add: py_strip_def strip_where_def is_space_def str_lit_def)

lemma ex_key: "getenv ex_env_key (str_lit ''GEMINI_API_KEY'') = Some (str_lit ''secret'')"
  by (simp add: getenv_def ex_env_key_def)

lemma ex_secret: "str_lit ''secret'' \<noteq> []"
  by (simp add: str_lit_def)

lemma ex_brace_open: "py_find (py_strip_chars (py_strip ex_text) [96]) 123 \<noteq> - 1"
  unfolding ex_text_stripped ex_find by simp

lemma ex_brace_close: "py_rfind (py_strip_chars (py_strip ex_text) [96]) 125 \<noteq> - 1"
  unfolding ex_text_stripped ex_rfind by simp

lemma ex_loads:
  "json_loads ex_lib
     (py_slice (py_strip_chars (py_strip ex_text) [96])
        (py_find (py_strip_chars (py_strip ex_text) [96]) 123)
        (py_rfind (py_strip_chars (py_strip ex_text) [96]) 125 + 1))
   = Inr (JObj [(str_lit ''prompt'', JStr (str_lit '' Capital of France? '')),
                (str_lit ''solution'', JStr (str_lit ''Paris''))])"
  unfolding ex_text_stripped ex_find ex_rfind ex_slice
  by (simp add: ex_lib_def ex_obj_def)

lemma ex_prompt:
  "py_str ex_lib
     (case map_of [(str_lit ''prompt'', JStr (str_lit '' Capital of France? '')),
                   (str_lit ''solution'', JStr (str_lit ''Paris''))] (str_lit ''prompt'')
      of None \<Rightarrow> JStr [] | Some v \<Rightarrow> v)
   = Inr (str_lit '' Capital of France? '')"
  by simp

lemma ex_solution:
  "py_str ex_lib
     (case map_of [(str_lit ''prompt'', JStr (str_lit '' Capital of France? '')),
                   (str_lit ''solution'', JStr (str_lit ''Paris''))] (str_lit ''solution'')
      of None \<Rightarrow> JStr [] | Some v \<Rightarrow> v)
   = Inr (str_lit ''Paris'')"
  by (simp add: str_lit_def)

lemma ex_prompt_nonempty: "py_strip (str_lit '' Capital of France? '') \<noteq> []"
  unfolding ex_strip_prompt by (simp add: str_lit_def)

lemma ex_solution_nonempty: "py_strip (str_lit ''Paris'') \<noteq> []"
  unfolding ex_strip_solution by (simp add: str_lit_def)

lemma ex_status:
  "raise_for_status \<lparr> raise_for_status = None, json_body = Inr ex_data \<rparr> = None"
  by simp

lemma ex_body:
  "json_body \<lparr> raise_for_status = None, json_body = Inr ex_data \<rparr> = Inr ex_data"
  by simp

lemma ex_take_prompt:
  "take 300 (py_strip (str_lit '' Capital of France? '')) = str_lit ''Capital of France?''"
  unfolding ex_strip_prompt by (simp add: str_lit_def)

lemma ex_take_solution: "take 100 (py_strip (str_lit ''Paris'')) = str_lit ''Paris''"
  unfolding ex_strip_solution by (simp add: str_lit_def)

lemma ex_get_quiz:
  "get_quiz ex_lib ex_env_key ex_upstream
     = Inr (quiz_item (str_lit ''Capital of France?'') (str_lit ''Paris''))"
proof -
  have "get_quiz ex_lib ex_env_key
          (Responded \<lparr> raise_for_status = None, json_body = Inr ex_data \<rparr>)
     = Inr (quiz_item (take 300 (py_strip (str_lit '' Capital of France? '')))
              (take 100 (py_strip (str_lit ''Paris''))))"
    by (rule get_quiz_success [OF ex_key ex_secret ex_status ex_body ex_candidate_text
          ex_brace_open ex_brace_close ex_loads ex_prompt ex_prompt_nonempty
          ex_solution ex_solution_nonempty])
  then show ?thesis
    by (simp only: ex_upstream_def ex_take_prompt ex_take_solution)
qed

lemma ex_fallback: "fallback_question ex_env_key = Inr (pool ! 2)"
proof -
  have "fallback_idx ex_env_key = 2"
    by (simp add: fallback_idx_def getenv_default_def length_pool ex_env_key_def ex_env_def
        str_lit_def)
  then show ?thesis by (simp add: fallback_question_nth)
qed

lemma ex_get_quiz_not_fallback:
  "get_quiz ex_lib ex_env_key ex_upstream \<noteq> fallback_question ex_env_key"
  unfolding ex_get_quiz ex_fallback pool_nth_2
  by (simp add: quiz_item_inject str_lit_def)



text \<open>
  C1. For every environment and every behaviour of the upstream and of the library,
  \<open>get_quiz\<close> returns a dictionary with a prompt and a solution and raises nothing. It
  returns something other than the item of the fallback selector only when the
  upstream gave a response with a successful status and a JSON body, the candidate
  text is a non-empty string with both braces, the text between them parses to an
  object, and the strings of its \<open>prompt\<close> and \<open>solution\<close> are not empty after trimming;
  so every failure on the way ends in the fallback selector.
\<close>

theorem get_quiz_never_raises:
  "(\<exists>p s. get_quiz lib env up = Inr (quiz_item p s))
   \<and> (get_quiz lib env up \<noteq> fallback_question env \<longrightarrow>
       (\<exists>resp data t kvs ps ss.
          up = Responded resp \<and> raise_for_status resp = None \<and> json_body resp = Inr data
          \<and> candidate_text data = Inr (JStr t) \<and> t \<noteq> []
          \<and> py_find (py_strip_chars (py_strip t) [96]) 123 \<noteq> - 1
          \<and> py_rfind (py_strip_chars (py_strip t) [96]) 125 \<noteq> - 1
          \<and> json_loads lib
                (py_slice (py_strip_chars (py_strip t) [96])
                   (py_find (py_strip_chars (py_strip t) [96]) 123)
                   (py_rfind (py_strip_chars (py_strip t) [96]) 125 + 1)) = Inr (JObj kvs)
          \<and> py_str lib (case map_of kvs (str_lit ''prompt'') of None \<Rightarrow> JStr [] | Some v \<Rightarrow> v) = Inr ps
          \<and> py_str lib (case map_of kvs (str_lit ''solution'') of None \<Rightarrow> JStr [] | Some v \<Rightarrow> v) = Inr ss
          \<and> py_strip ps \<noteq> [] \<and> py_strip ss \<noteq> []
          \<and> get_quiz lib env up = Inr (quiz_item (take 300 (py_strip ps)) (take 100 (py_strip ss)))))"
proof -
  have first: "\<exists>p s. get_quiz lib env up = Inr (quiz_item p s)"
  proof (rule disjE [OF get_quiz_cases [of lib env up]])
    assume fb: "get_quiz lib env up = fallback_question env"
    from fallback_question_valid [of env] obtain p s
      where "fallback_question env = Inr (quiz_item p s)" by blast
    with fb have "get_quiz lib env up = Inr (quiz_item p s)" by simp
    then show ?thesis by (intro exI)
  next
    assume "\<exists>resp data t kvs ps ss.
          up = Responded resp \<and> raise_for_status resp = None \<and> json_body resp = Inr data
          \<and> candidate_text data = Inr (JStr t) \<and> t \<noteq> []
          \<and> py_find (py_strip_chars (py_strip t) [96]) 123 \<noteq> - 1
          \<and> py_rfind (py_strip_chars (py_strip t) [96]) 125 \<noteq> - 1
          \<and> json_loads lib
                (py_slice (py_strip_chars (py_strip t) [96])
                   (py_find (py_strip_chars (py_strip t) [96]) 123)
                   (py_rfind (py_strip_chars (py_strip t) [96]) 125 + 1)) = Inr (JObj kvs)
          \<and> py_str lib (case map_of kvs (str_lit ''prompt'') of None \<Rightarrow> JStr [] | Some v \<Rightarrow> v) = Inr ps
          \<and> py_str lib (case map_of kvs (str_lit ''solution'') of None \<Rightarrow> JStr [] | Some v \<Rightarrow> v) = Inr ss
          \<and> py_strip ps \<noteq> [] \<and> py_strip ss \<noteq> []
          \<and> get_quiz lib env up = Inr (quiz_item (take 300 (py_strip ps)) (take 100 (py_strip ss)))"
    then obtain ps ss where
      "get_quiz lib env up = Inr (quiz_item (take 300 (py_strip ps)) (take 100 (py_strip ss)))"
      by (elim exE conjE)
    then show ?thesis by (intro exI)
  qed
  have logic: "\<not> P \<longrightarrow> Q" if "P \<or> Q" for P Q
    using that by blast
  from first logic [OF get_quiz_cases [of lib env up]] show ?thesis
    by (rule conjI)
qed

theorem get_quiz_never_raises_witness:
  "get_quiz ex_lib ex_env_key ex_upstream \<noteq> fallback_question ex_env_key
   \<and> (\<exists>p s. get_quiz ex_lib ex_env_key ex_upstream = Inr (quiz_item p s))
   \<and> (\<exists>resp data t kvs ps ss.
          ex_upstream = Responded resp \<and> raise_for_status resp = None \<and> json_body resp = Inr data
          \<and> candidate_text data = Inr (JStr t) \<and> t \<noteq> []
          \<and> py_find (py_strip_chars (py_strip t) [96]) 123 \<noteq> - 1
          \<and> py_rfind (py_strip_chars (py_strip t) [96]) 125 \<noteq> - 1
          \<and> json_loads ex_lib
                (py_slice (py_strip_chars (py_strip t) [96])
                   (py_find (py_strip_chars (py_strip t) [96]) 123)
                   (py_rfind (py_strip_chars (py_strip t) [96]) 125 + 1)) = Inr (JObj kvs)
          \<and> py_str ex_lib (case map_of kvs (str_lit ''prompt'') of None \<Rightarrow> JStr [] | Some v \<Rightarrow> v) = Inr ps
          \<and> py_str ex_lib (case map_of kvs (str_lit ''solution'') of None \<Rightarrow> JStr [] | Some v \<Rightarrow> v) = Inr ss
          \<and> py_strip ps \<noteq> [] \<and> py_strip ss \<noteq> []
          \<and> get_quiz ex_lib ex_env_key ex_upstream = Inr (quiz_item (take 300 (py_strip ps)) (take 100 (py_strip ss))))"
proof -
  have logic: "H \<and> A \<and> B" if "H" "A \<and> (H \<longrightarrow> B)" for H A B
    using that by blast
  show ?thesis
    by (rule logic [OF ex_get_quiz_not_fallback
          get_quiz_never_raises [of ex_lib ex_env_key ex_upstream]])
qed

text \<open>
  C2. In every dictionary that \<open>get_quiz\<close> returns, from the upstream or from the pool,
  the prompt is not empty and has at most 300 characters, and the solution is not
  empty and has at most 100 characters.
\<close>

theorem get_quiz_item_bounds:
  assumes "get_quiz lib env up = Inr q"
  shows "\<exists>p s. q = quiz_item p s \<and> p \<noteq> [] \<and> length p \<le> 300 \<and> s \<noteq> [] \<and> length s \<le> 100"
proof -
  from get_quiz_cases [of lib env up] show ?thesis
  proof
    assume "get_quiz lib env up = fallback_question env"
    with assms fallback_question_valid [of env] show ?thesis
      by auto
  next
    assume "\<exists>resp data t kvs ps ss.
          up = Responded resp \<and> raise_for_status resp = None \<and> json_body resp = Inr data
          \<and> candidate_text data = Inr (JStr t) \<and> t \<noteq> []
          \<and> py_find (py_strip_chars (py_strip t) [96]) 123 \<noteq> - 1
          \<and> py_rfind (py_strip_chars (py_strip t) [96]) 125 \<noteq> - 1
          \<and> json_loads lib
                (py_slice (py_strip_chars (py_strip t) [96])
                   (py_find (py_strip_chars (py_strip t) [96]) 123)
                   (py_rfind (py_strip_chars (py_strip t) [96]) 125 + 1)) = Inr (JObj kvs)
          \<and> py_str lib (case map_of kvs (str_lit ''prompt'') of None \<Rightarrow> JStr [] | Some v \<Rightarrow> v) = Inr ps
          \<and> py_str lib (case map_of kvs (str_lit ''solution'') of None \<Rightarrow> JStr [] | Some v \<Rightarrow> v) = Inr ss
          \<and> py_strip ps \<noteq> [] \<and> py_strip ss \<noteq> []
          \<and> get_quiz lib env up = Inr (quiz_item (take 300 (py_strip ps)) (take 100 (py_strip ss)))"
    then obtain ps ss where ne: "py_strip ps \<noteq> []" "py_strip ss \<noteq> []"
      and res: "get_quiz lib env up = Inr (quiz_item (take 300 (py_strip ps)) (take 100 (py_strip ss)))"
      by (elim exE conjE)
    from res assms have "q = quiz_item (take 300 (py_strip ps)) (take 100 (py_strip ss))"
      by simp
    moreover from ne have "take 300 (py_strip ps) \<noteq> []" "take 100 (py_strip ss) \<noteq> []"
      by simp_all
    moreover have "length (take 300 (py_strip ps)) \<le> 300" "length (take 100 (py_strip ss)) \<le> 100"
      by simp_all
    ultimately show ?thesis by blast
  qed
qed

theorem get_quiz_item_bounds_witness:
  "get_quiz ex_lib ex_env_key ex_upstream
     = Inr (quiz_item (str_lit ''Capital of France?'') (str_lit ''Paris''))
   \<and> (\<exists>p s. quiz_item (str_lit ''Capital of France?'') (str_lit ''Paris'') = quiz_item p s
         \<and> p \<noteq> [] \<and> length p \<le> 300 \<and> s \<noteq> [] \<and> length s \<le> 100)"
  using ex_get_quiz get_quiz_item_bounds [OF ex_get_quiz]
  by blast

lemma ex_trailing_candidate: "candidate_text ex_data_trailing = Inr (JStr ex_text_trailing)"
  by (simp add: candidate_text_def ex_data_trailing_def bind_exn_Inr_eq py_index_def str_lit_def)

lemma ex_trailing_contains: "py_slice ex_text_trailing 6 58 = ex_json_str"
  by (simp add: py_slice_def slice_bound_def ex_text_trailing_def ex_json_str_def str_lit_def)

lemma ex_trailing_stripped:
  "py_strip_chars (py_strip ex_text_trailing) [96] = ex_text_trailing"
  by (simp add: py_strip_def py_strip_chars_def strip_where_def is_space_def
      ex_text_trailing_def ex_json_str_def str_lit_def)

lemma ex_trailing_find: "py_find ex_text_trailing 123 = 6"
  by (simp add: ex_text_trailing_def ex_json_str_def str_lit_def)

lemma ex_trailing_rfind: "py_rfind ex_text_trailing 125 = 64"
  by (simp add: py_rfind_def ex_text_trailing_def ex_json_str_def str_lit_def)

lemma ex_trailing_slice_length: "length (py_slice ex_text_trailing 6 65) = 59"
  by (simp add: py_slice_def slice_bound_def ex_text_trailing_def ex_json_str_def str_lit_def)

lemma ex_json_str_length: "length ex_json_str = 52"
  by (simp add: ex_json_str_def str_lit_def)

lemma ex_trailing_loads:
  "json_loads ex_lib (py_slice ex_text_trailing 6 65) = Inl ValueError"
proof -
  have "py_slice ex_text_trailing 6 65 \<noteq> ex_json_str"
    using ex_trailing_slice_length ex_json_str_length by auto
  then show ?thesis
    by (simp add: ex_lib_def)
qed

lemma ex_trailing_truthy: "ex_text_trailing \<noteq> []"
  by (simp add: ex_text_trailing_def str_lit_def)

lemma ex_trailing_try: "get_quiz_try ex_lib ex_env_key ex_upstream_trailing = Inl ValueError"
  using ex_trailing_truthy
  by (simp add: get_quiz_try_def ex_upstream_trailing_def ex_trailing_candidate
      bind_exn_Inr_eq bind_exn_Inl_eq Let_def ex_trailing_stripped ex_trailing_find
      ex_trailing_rfind ex_trailing_loads)

lemma ex_trailing_get_quiz:
  "get_quiz ex_lib ex_env_key ex_upstream_trailing = fallback_question ex_env_key"
  using ex_secret
  by (simp add: get_quiz_def ex_key ex_trailing_try)

text \<open>
  C6, as stated, fails: the candidate text \<open>Sure! {...} (ok) }\<close> contains a JSON object
  (its characters 6 to 57) that \<open>json.loads\<close> parses and whose prompt and solution are
  not empty after trimming, a credential is set and the upstream answers with a
  successful status, and \<open>get_quiz\<close> returns the item of the fallback selector, not the
  prompt and the solution of the object.
\<close>

theorem get_quiz_trailing_brace_counterexample:
  "getenv ex_env_key (str_lit ''GEMINI_API_KEY'') = Some (str_lit ''secret'')
   \<and> candidate_text ex_data_trailing = Inr (JStr ex_text_trailing)
   \<and> py_slice ex_text_trailing 6 58 = ex_json_str
   \<and> json_loads ex_lib ex_json_str
       = Inr (JObj [(str_lit ''prompt'', JStr (str_lit '' Capital of France? '')),
                    (str_lit ''solution'', JStr (str_lit ''Paris''))])
   \<and> py_strip (str_lit '' Capital of France? '') = str_lit ''Capital of France?''
   \<and> py_strip (str_lit ''Paris'') = str_lit ''Paris''
   \<and> get_quiz ex_lib ex_env_key ex_upstream_trailing = fallback_question ex_env_key
   \<and> get_quiz ex_lib ex_env_key ex_upstream_trailing
       \<noteq> Inr (quiz_item (str_lit ''Capital of France?'') (str_lit ''Paris''))"
proof -
  have parses: "json_loads ex_lib ex_json_str
       = Inr (JObj [(str_lit ''prompt'', JStr (str_lit '' Capital of France? '')),
                    (str_lit ''solution'', JStr (str_lit ''Paris''))])"
    by (simp add: ex_lib_def ex_obj_def)
  have differs: "get_quiz ex_lib ex_env_key ex_upstream_trailing
       \<noteq> Inr (quiz_item (str_lit ''Capital of France?'') (str_lit ''Paris''))"
    unfolding ex_trailing_get_quiz ex_fallback pool_nth_2
    by (simp add: quiz_item_inject str_lit_def)
  from ex_key ex_trailing_candidate ex_trailing_contains parses ex_strip_prompt
    ex_strip_solution ex_trailing_get_quiz differs
  show ?thesis
    by (intro conjI)
qed

text \<open>
  C6, amended. When a credential is set and the upstream answers with a successful
  status and a JSON body, and in the candidate text, after the white space and the
  backticks around it are removed, the characters from the first opening brace to the
  last closing brace are what \<open>json.loads\<close> parses to an object, and the strings of the
  object's \<open>prompt\<close> and \<open>solution\<close> are not empty after trimming, \<open>get_quiz\<close> returns
  exactly these trimmed strings, cut to their first 300 and 100 characters.
\<close>

theorem get_quiz_upstream_success:
  assumes "getenv env (str_lit ''GEMINI_API_KEY'') = Some api_key" "api_key \<noteq> []"
    and "raise_for_status resp = None" "json_body resp = Inr data"
    and "candidate_text data = Inr (JStr t)"
    and "py_find (py_strip_chars (py_strip t) [96]) 123 \<noteq> - 1"
      "py_rfind (py_strip_chars (py_strip t) [96]) 125 \<noteq> - 1"
    and "json_loads lib
        (py_slice (py_strip_chars (py_strip t) [96])
           (py_find (py_strip_chars (py_strip t) [96]) 123)
           (py_rfind (py_strip_chars (py_strip t) [96]) 125 + 1)) = Inr (JObj kvs)"
    and "py_str lib (case map_of kvs (str_lit ''prompt'') of None \<Rightarrow> JStr [] | Some v \<Rightarrow> v) = Inr ps"
      "py_strip ps \<noteq> []"
    and "py_str lib (case map_of kvs (str_lit ''solution'') of None \<Rightarrow> JStr [] | Some v \<Rightarrow> v) = Inr ss"
      "py_strip ss \<noteq> []"
  shows "get_quiz lib env (Responded resp)
      = Inr (quiz_item (take 300 (py_strip ps)) (take 100 (py_strip ss)))
    \<and> length (take 300 (py_strip ps)) \<le> 300 \<and> length (take 100 (py_strip ss)) \<le> 100"
  using get_quiz_success [OF assms] by simp


theorem get_quiz_upstream_success_witness:
  "getenv ex_env_key (str_lit ''GEMINI_API_KEY'') = Some (str_lit ''secret'')
   \<and> candidate_text ex_data = Inr (JStr ex_text)
   \<and> py_strip_chars (py_strip ex_text) [96] = ex_json_str @ [10]
   \<and> json_loads ex_lib ex_json_str = Inr ex_obj
   \<and> get_quiz ex_lib ex_env_key ex_upstream
       = Inr (quiz_item (str_lit ''Capital of France?'') (str_lit ''Paris''))"
proof -
  have "get_quiz ex_lib ex_env_key
          (Responded \<lparr> raise_for_status = None, json_body = Inr ex_data \<rparr>)
     = Inr (quiz_item (take 300 (py_strip (str_lit '' Capital of France? '')))
              (take 100 (py_strip (str_lit ''Paris''))))"
    using get_quiz_upstream_success [OF ex_key ex_secret ex_status ex_body ex_candidate_text
          ex_brace_open ex_brace_close ex_loads ex_prompt ex_prompt_nonempty
          ex_solution ex_solution_nonempty]
    by (rule conjunct1)
  then have "get_quiz ex_lib ex_env_key ex_upstream
       = Inr (quiz_item (str_lit ''Capital of France?'') (str_lit ''Paris''))"
    by (simp only: ex_upstream_def ex_take_prompt ex_take_solution)
  moreover have "json_loads ex_lib ex_json_str = Inr ex_obj"
    by (simp add: ex_lib_def)
  ultimately show ?thesis
    using ex_key ex_candidate_text ex_text_stripped by blast
qed

section \<open>Properties of the status endpoint\<close>

lemma key_neq:
  "str_lit ''database_name'' \<noteq> str_lit ''database_url''"
  "str_lit ''database_name'' \<noteq> str_lit ''collections''"
  "str_lit ''database_url'' \<noteq> str_lit ''collections''"
  "str_lit ''database'' \<noteq> str_lit ''collections''"
  "str_lit ''connection_status'' \<noteq> str_lit ''collections''"
  "str_lit ''database'' \<noteq> str_lit ''database_url''"
  "str_lit ''database'' \<noteq> str_lit ''database_name''"
  by (simp_all add: str_lit_def)

lemma dom_upd_same: "k \<in> dom m \<Longrightarrow> dom (m(k \<mapsto> v)) = dom m"
  by auto

lemma test_database_try_dom:
  assumes "dom r = {str_lit ''backend'', str_lit ''database'', str_lit ''database_url'',
      str_lit ''database_name'', str_lit ''connection_status'', str_lit ''collections''}"
  shows "dom (fst (test_database_try imp r)) = dom r"
proof -
  have mem: "str_lit ''database'' \<in> dom r" "str_lit ''database_url'' \<in> dom r"
    "str_lit ''database_name'' \<in> dom r" "str_lit ''connection_status'' \<in> dom r"
    "str_lit ''collections'' \<in> dom r"
    unfolding assms by simp_all
  show ?thesis
  proof (cases imp)
    case (ImportRaises e)
    then show ?thesis by (simp add: test_database_try_def)
  next
    case (Imported h)
    show ?thesis
    proof (cases h)
      case None
      with Imported mem show ?thesis
        by (simp add: test_database_try_def dom_upd_same del: dom_fun_upd)
    next
      case (Some db)
      show ?thesis
      proof (cases "name_or_connected db")
        case (Inl e)
        with Imported Some mem show ?thesis
          by (simp add: test_database_try_def Let_def dom_upd_same del: dom_fun_upd)
      next
        case (Inr v)
        show ?thesis
        proof (cases "list_collection_names db")
          case Inl
          with Imported Some Inr mem show ?thesis
            by (simp add: test_database_try_def Let_def dom_upd_same del: dom_fun_upd)
        next
          case names: (Inr cs)
          with Imported Some Inr mem show ?thesis
            by (simp add: test_database_try_def Let_def dom_upd_same del: dom_fun_upd)
        qed
      qed
    qed
  qed
qed


lemma dom_initial_response:
  "dom initial_response = {str_lit ''backend'', str_lit ''database'', str_lit ''database_url'',
      str_lit ''database_name'', str_lit ''connection_status'', str_lit ''collections''}"
  by (auto simp: initial_response_def)

lemma test_database_try_collections:
  assumes "r (str_lit ''collections'') = Some (RList [])"
  shows "fst (test_database_try imp r) (str_lit ''collections'')
    = Some (RList (case imp of
         ImportRaises e \<Rightarrow> []
       | Imported None \<Rightarrow> []
       | Imported (Some db) \<Rightarrow>
           (case name_or_connected db of
              Inl e \<Rightarrow> []
            | Inr v \<Rightarrow> (case list_collection_names db of Inl e \<Rightarrow> [] | Inr cs \<Rightarrow> take 10 cs))))"
proof (cases imp)
  case (ImportRaises e)
  with assms show ?thesis by (simp add: test_database_try_def)
next
  case (Imported h)
  show ?thesis
  proof (cases h)
    case None
    with Imported assms show ?thesis
      by (simp add: test_database_try_def key_neq key_neq [symmetric])
  next
    case (Some db)
    show ?thesis
    proof (cases "name_or_connected db")
      case (Inl e)
      with Imported Some assms show ?thesis
        by (simp add: test_database_try_def Let_def key_neq key_neq [symmetric])
    next
      case (Inr v)
      show ?thesis
      proof (cases "list_collection_names db")
        case Inl
        with Imported Some Inr assms show ?thesis
          by (simp add: test_database_try_def Let_def key_neq key_neq [symmetric])
      next
        case names: (Inr cs)
        with Imported Some Inr assms show ?thesis
          by (simp add: test_database_try_def Let_def key_neq key_neq [symmetric] py_slice_prefix)
      qed
    qed
  qed
qed

lemma test_database_split:
  obtains r raised where "test_database_try imp initial_response = (r, raised)"
    and "test_database env imp =
      ((case raised of
          None \<Rightarrow> r
        | Some e \<Rightarrow>
            if exn_cls e = ImportError
            then r(str_lit ''database'' \<mapsto>
                   RStr (10060 # str_lit '' Database module not found (run enable-database first)''))
            else r(str_lit ''database'' \<mapsto>
                   RStr (10060 # str_lit '' Error: '' @ py_slice (exn_str e) 0 50)))
       (str_lit ''database_url'' \<mapsto> set_or_not (getenv_truthy env (str_lit ''DATABASE_URL''))))
       (str_lit ''database_name'' \<mapsto> set_or_not (getenv_truthy env (str_lit ''DATABASE_NAME'')))"
proof -
  obtain r raised where pair: "test_database_try imp initial_response = (r, raised)"
    by (cases "test_database_try imp initial_response")
  show ?thesis
    by (rule that [OF pair]) (simp add: test_database_def Let_def pair)
qed

lemma test_database_url:
  "test_database env imp (str_lit ''database_url'')
     = Some (set_or_not (getenv_truthy env (str_lit ''DATABASE_URL'')))"
  by (rule test_database_split [of imp env]) (simp add: key_neq key_neq [symmetric])

lemma test_database_name:
  "test_database env imp (str_lit ''database_name'')
     = Some (set_or_not (getenv_truthy env (str_lit ''DATABASE_NAME'')))"
  by (rule test_database_split [of imp env]) simp

lemma test_database_collections_eq:
  "test_database env imp (str_lit ''collections'')
     = fst (test_database_try imp initial_response) (str_lit ''collections'')"
proof (rule test_database_split [of imp env])
  fix r raised
  assume pair: "test_database_try imp initial_response = (r, raised)"
    and eq: "test_database env imp =
      ((case raised of
          None \<Rightarrow> r
        | Some e \<Rightarrow>
            if exn_cls e = ImportError
            then r(str_lit ''database'' \<mapsto>
                   RStr (10060 # str_lit '' Database module not found (run enable-database first)''))
            else r(str_lit ''database'' \<mapsto>
                   RStr (10060 # str_lit '' Error: '' @ py_slice (exn_str e) 0 50)))
       (str_lit ''database_url'' \<mapsto> set_or_not (getenv_truthy env (str_lit ''DATABASE_URL''))))
       (str_lit ''database_name'' \<mapsto> set_or_not (getenv_truthy env (str_lit ''DATABASE_NAME'')))"
  show ?thesis
    unfolding eq pair
    by (cases raised) (simp_all add: key_neq key_neq [symmetric])
qed

lemma initial_collections: "initial_response (str_lit ''collections'') = Some (RList [])"
  by (simp add: initial_response_def)

text \<open>
  C7. Whatever the database collaborator does (the import raises, the handle is
  \<open>None\<close>, reading its name raises, the enumeration returns or raises), the keys of the
  dictionary that \<open>test_database\<close> returns are exactly the six documented ones:
  \<open>backend\<close>, \<open>database\<close>, \<open>database_url\<close>, \<open>database_name\<close>, \<open>connection_status\<close> and
  \<open>collections\<close>.
\<close>

theorem test_database_keys:
  "dom (test_database env imp) = {str_lit ''backend'', str_lit ''database'', str_lit ''database_url'',
      str_lit ''database_name'', str_lit ''connection_status'', str_lit ''collections''}"
proof -
  obtain r raised where pair: "test_database_try imp initial_response = (r, raised)"
    and eq: "test_database env imp =
      ((case raised of
          None \<Rightarrow> r
        | Some e \<Rightarrow>
            if exn_cls e = ImportError
            then r(str_lit ''database'' \<mapsto>
                   RStr (10060 # str_lit '' Database module not found (run enable-database first)''))
            else r(str_lit ''database'' \<mapsto>
                   RStr (10060 # str_lit '' Error: '' @ py_slice (exn_str e) 0 50)))
       (str_lit ''database_url'' \<mapsto> set_or_not (getenv_truthy env (str_lit ''DATABASE_URL''))))
       (str_lit ''database_name'' \<mapsto> set_or_not (getenv_truthy env (str_lit ''DATABASE_NAME'')))"
    by (rule test_database_split)
  from test_database_try_dom [OF dom_initial_response, of imp] pair
  have r: "dom r = {str_lit ''backend'', str_lit ''database'', str_lit ''database_url'',
      str_lit ''database_name'', str_lit ''connection_status'', str_lit ''collections''}"
    by (simp add: dom_initial_response)
  then have mem: "str_lit ''database'' \<in> dom r" "str_lit ''database_url'' \<in> dom r"
    "str_lit ''database_name'' \<in> dom r"
    by simp_all
  have "dom (test_database env imp) = dom r"
    unfolding eq using mem
    by (cases raised) (simp_all add: dom_upd_same del: dom_fun_upd)
  with r show ?thesis by simp
qed

text \<open>
  C8. The \<open>collections\<close> entry of the response is always a list of at most 10 names,
  and when the enumeration is reached and returns a list, it is the list of the first
  10 names enumerated.
\<close>

theorem test_database_collections:
  "(\<exists>names. test_database env imp (str_lit ''collections'') = Some (RList names)
      \<and> length names \<le> 10)
   \<and> (name_or_connected db = Inr v \<and> list_collection_names db = Inr cs \<longrightarrow>
        test_database env (Imported (Some db)) (str_lit ''collections'')
          = Some (RList (take 10 cs)))"
proof -
  note eq = test_database_collections_eq test_database_try_collections [of initial_response, OF initial_collections]
  have bound: "\<exists>names. test_database env imp (str_lit ''collections'') = Some (RList names)
      \<and> length names \<le> 10"
    unfolding eq
    by (simp split: db_import.split option.split sum.split)
  have first: "test_database env (Imported (Some db)) (str_lit ''collections'')
      = Some (RList (take 10 cs))"
    if "name_or_connected db = Inr v" "list_collection_names db = Inr cs"
    unfolding eq using that by simp
  from bound first show ?thesis
    by blast
qed

lemma ex_db_name: "name_or_connected ex_db = Inr (RStr (str_lit ''quizdb''))"
  by (simp add: name_or_connected_def ex_db_def)

theorem test_database_collections_witness:
  "name_or_connected ex_db = Inr (RStr (str_lit ''quizdb''))
   \<and> length (projr (list_collection_names ex_db)) = 12
   \<and> test_database ex_env (Imported (Some ex_db)) (str_lit ''collections'')
       = Some (RList [str_lit ''c01'', str_lit ''c02'', str_lit ''c03'', str_lit ''c04'',
                      str_lit ''c05'', str_lit ''c06'', str_lit ''c07'', str_lit ''c08'',
                      str_lit ''c09'', str_lit ''c10''])"
proof -
  let ?cs = "[str_lit ''c01'', str_lit ''c02'', str_lit ''c03'', str_lit ''c04'',
              str_lit ''c05'', str_lit ''c06'', str_lit ''c07'', str_lit ''c08'',
              str_lit ''c09'', str_lit ''c10'', str_lit ''c11'', str_lit ''c12'']"
  have names: "list_collection_names ex_db = Inr ?cs"
    by (simp add: ex_db_def)
  from test_database_collections [of ex_env "Imported (Some ex_db)" ex_db
      "RStr (str_lit ''quizdb'')" ?cs] ex_db_name names
  have "test_database ex_env (Imported (Some ex_db)) (str_lit ''collections'')
      = Some (RList (take 10 ?cs))"
    by blast
  with ex_db_name names show ?thesis
    by simp
qed

text \<open>
  C9, as stated, fails: two environments in which \<open>DATABASE_URL\<close> is set, to the empty
  string in one and to a URL in the other, agree on the presence of both variables
  and give different \<open>database_url\<close> entries.
\<close>

theorem test_database_presence_counterexample:
  "(getenv ex_env_url_empty (str_lit ''DATABASE_URL'') \<noteq> None)
     = (getenv ex_env_url_set (str_lit ''DATABASE_URL'') \<noteq> None)
   \<and> (getenv ex_env_url_empty (str_lit ''DATABASE_NAME'') \<noteq> None)
     = (getenv ex_env_url_set (str_lit ''DATABASE_NAME'') \<noteq> None)
   \<and> test_database ex_env_url_empty (Imported None) (str_lit ''database_url'')
       = Some (RStr (10060 # str_lit '' Not Set''))
   \<and> test_database ex_env_url_set (Imported None) (str_lit ''database_url'')
       = Some (RStr (9989 # str_lit '' Set''))
   \<and> test_database ex_env_url_empty (Imported None) (str_lit ''database_url'')
       \<noteq> test_database ex_env_url_set (Imported None) (str_lit ''database_url'')"
proof -
  have empty: "\<not> getenv_truthy ex_env_url_empty (str_lit ''DATABASE_URL'')"
    by (simp add: getenv_truthy_def getenv_def ex_env_url_empty_def)
  have set: "getenv_truthy ex_env_url_set (str_lit ''DATABASE_URL'')"
    by (simp add: getenv_truthy_def getenv_def ex_env_url_set_def str_lit_def)
  have present: "(getenv ex_env_url_empty (str_lit ''DATABASE_URL'') \<noteq> None)
     = (getenv ex_env_url_set (str_lit ''DATABASE_URL'') \<noteq> None)"
    by (simp add: getenv_def ex_env_url_empty_def ex_env_url_set_def)
  have absent: "(getenv ex_env_url_empty (str_lit ''DATABASE_NAME'') \<noteq> None)
     = (getenv ex_env_url_set (str_lit ''DATABASE_NAME'') \<noteq> None)"
    by (simp add: getenv_def ex_env_url_empty_def ex_env_url_set_def str_lit_def)
  have a: "test_database ex_env_url_empty (Imported None) (str_lit ''database_url'')
       = Some (RStr (10060 # str_lit '' Not Set''))"
    using empty by (simp add: test_database_url set_or_not_def)
  have b: "test_database ex_env_url_set (Imported None) (str_lit ''database_url'')
       = Some (RStr (9989 # str_lit '' Set''))"
    using set by (simp add: test_database_url set_or_not_def)
  have "test_database ex_env_url_empty (Imported None) (str_lit ''database_url'')
       \<noteq> test_database ex_env_url_set (Imported None) (str_lit ''database_url'')"
    unfolding a b by simp
  with present absent a b show ?thesis
    by blast
qed

text \<open>
  C9, amended. The \<open>database_url\<close> and \<open>database_name\<close> entries depend only on whether
  \<open>DATABASE_URL\<close> and \<open>DATABASE_NAME\<close> are set to a non-empty string: two runs whose
  environments agree on that give the same two entries, whatever the values of the
  variables and whatever the database collaborator does in either run, and each entry
  is one of the two strings \<open>Set\<close> and \<open>Not Set\<close> with their marks.
\<close>

theorem test_database_env_fields:
  assumes "getenv_truthy env1 (str_lit ''DATABASE_URL'') = getenv_truthy env2 (str_lit ''DATABASE_URL'')"
    and "getenv_truthy env1 (str_lit ''DATABASE_NAME'') = getenv_truthy env2 (str_lit ''DATABASE_NAME'')"
  shows "test_database env1 imp1 (str_lit ''database_url'')
       = test_database env2 imp2 (str_lit ''database_url'')
    \<and> test_database env1 imp1 (str_lit ''database_name'')
       = test_database env2 imp2 (str_lit ''database_name'')
    \<and> test_database env1 imp1 (str_lit ''database_url'')
       \<in> {Some (RStr (9989 # str_lit '' Set'')), Some (RStr (10060 # str_lit '' Not Set''))}
    \<and> test_database env1 imp1 (str_lit ''database_name'')
       \<in> {Some (RStr (9989 # str_lit '' Set'')), Some (RStr (10060 # str_lit '' Not Set''))}"
  using assms
  by (simp add: test_database_url test_database_name set_or_not_def)

theorem test_database_env_fields_witness:
  "getenv_truthy ex_env_url_set (str_lit ''DATABASE_URL'')
     = getenv_truthy (ex_env_url_set(str_lit ''DATABASE_URL'' \<mapsto> str_lit ''x'')) (str_lit ''DATABASE_URL'')
   \<and> getenv_truthy ex_env_url_set (str_lit ''DATABASE_NAME'')
     = getenv_truthy (ex_env_url_set(str_lit ''DATABASE_URL'' \<mapsto> str_lit ''x'')) (str_lit ''DATABASE_NAME'')
   \<and> test_database ex_env_url_set (Imported (Some ex_db)) (str_lit ''database_url'')
     = test_database (ex_env_url_set(str_lit ''DATABASE_URL'' \<mapsto> str_lit ''x'')) (Imported None)
         (str_lit ''database_url'')
   \<and> test_database ex_env_url_set (Imported (Some ex_db)) (str_lit ''database_name'')
     = test_database (ex_env_url_set(str_lit ''DATABASE_URL'' \<mapsto> str_lit ''x'')) (Imported None)
         (str_lit ''database_name'')"
proof -
  have u: "getenv_truthy ex_env_url_set (str_lit ''DATABASE_URL'')
     = getenv_truthy (ex_env_url_set(str_lit ''DATABASE_URL'' \<mapsto> str_lit ''x'')) (str_lit ''DATABASE_URL'')"
    by (simp add: getenv_truthy_def getenv_def ex_env_url_set_def str_lit_def)
  have n: "getenv_truthy ex_env_url_set (str_lit ''DATABASE_NAME'')
     = getenv_truthy (ex_env_url_set(str_lit ''DATABASE_URL'' \<mapsto> str_lit ''x'')) (str_lit ''DATABASE_NAME'')"
    by (simp add: getenv_truthy_def getenv_def ex_env_url_set_def str_lit_def)
  from u n test_database_env_fields [OF u n, of "Imported (Some ex_db)" "Imported None"]
  show ?thesis by blast
qed

end
